theory Spec2Isabelle
  imports Main "HOL-Library.Word"
begin

unbundle bit_operations_syntax

section \<open>Data model of simple\_encoder.c\<close>

text \<open>
  The file drives an external encoder library through five entry points and keeps its
  session in file-scope variables.  The library is not part of the file, so it enters the
  model as a parameter (a record of functions over an opaque codec context).  Values of the
  C types \<open>long\<close>, \<open>int\<close> and \<open>size_t\<close>, and of the library's \<open>unsigned int\<close> fields,
  are modelled by the integers and naturals they denote, with the limits of the C types
  written out where the code computes with them: a product of \<open>unsigned int\<close> values and a
  store into an \<open>unsigned int\<close> field are reduced modulo 2^32, and a product of \<open>long\<close>
  values that leaves the range of \<open>long\<close> is undefined behaviour.  The width of \<open>long\<close> is
  fixed by the platform, 32 bits under ILP32 and 64 bits under LP64, and is a parameter of
  the model.  The frame counter is an integer without a bound.  Bytes written through
  \<open>char *\<close> and the \<open>unsigned int\<close> arguments of the little-endian writers are fixed-width
  words.
\<close>

type_synonym byte = "8 word"
type_synonym uint = "32 word"

text \<open>\<open>enum vpx_enc_pass\<close>, the type of \<open>cfg.g_pass\<close>.\<close>

datatype vpx_enc_pass = VPX_RC_ONE_PASS | VPX_RC_FIRST_PASS | VPX_RC_LAST_PASS

text \<open>\<open>vpx_rational_t\<close>, the type of \<open>cfg.g_timebase\<close>.\<close>

record vpx_rational_t =
  num :: int
  den :: int

text \<open>The fields of \<open>vpx_codec_enc_cfg_t\<close> that the file reads or writes.\<close>

record vpx_codec_enc_cfg_t =
  g_w :: nat
  g_h :: nat
  g_timebase :: vpx_rational_t
  g_pass :: vpx_enc_pass
  rc_target_bitrate :: nat

section \<open>Little-endian writers\<close>

text \<open>
  \<open>mem_put_le16(mem, val)\<close> and \<open>mem_put_le32(mem, val)\<close>.  The pointer \<open>mem\<close> is the
  array together with the offset the caller added to it; storing an \<open>unsigned int\<close> into a
  \<open>char\<close> keeps its low eight bits.
\<close>

definition mem_put_le16 :: "byte list \<Rightarrow> nat \<Rightarrow> uint \<Rightarrow> byte list" where
  "mem_put_le16 mem off val =
     (mem[off := ucast val])[off + 1 := ucast (drop_bit 8 val)]"

definition mem_put_le32 :: "byte list \<Rightarrow> nat \<Rightarrow> uint \<Rightarrow> byte list" where
  "mem_put_le32 mem off val =
     (((mem[off := ucast val])
           [off + 1 := ucast (drop_bit 8 val)])
           [off + 2 := ucast (drop_bit 16 val)])
           [off + 3 := ucast (drop_bit 24 val)]"

definition fourcc :: uint where
  "fourcc = 0x30385056"

section \<open>The container file header\<close>

text \<open>
  A \<open>FILE *\<close> opened for writing is the list of bytes written so far; \<open>fwrite(p, 1, n, f)\<close>
  appends the first \<open>n\<close> bytes of \<open>p\<close>.
\<close>

definition fwrite :: "byte list \<Rightarrow> nat \<Rightarrow> byte list \<Rightarrow> byte list" where
  "fwrite p n f = f @ take n p"

text \<open>
  The assignments of \<open>write_ivf_file_header\<close> to its local array \<open>header\<close>, in source
  order, starting from whatever the array holds.
\<close>

definition fill_ivf_file_header ::
  "byte list \<Rightarrow> vpx_codec_enc_cfg_t \<Rightarrow> int \<Rightarrow> byte list" where
  "fill_ivf_file_header header c frame_count =
     (let h0 = header[0 := of_nat (of_char (CHR ''D''))];
          h1 = h0[1 := of_nat (of_char (CHR ''K''))];
          h2 = h1[2 := of_nat (of_char (CHR ''I''))];
          h3 = h2[3 := of_nat (of_char (CHR ''F''))];
          h4 = mem_put_le16 h3 4 0;
          h5 = mem_put_le16 h4 6 32;
          h6 = mem_put_le32 h5 8 fourcc;
          h7 = mem_put_le16 h6 12 (of_nat (g_w c));
          h8 = mem_put_le16 h7 14 (of_nat (g_h c));
          h9 = mem_put_le32 h8 16 (of_int (den (g_timebase c)));
          h10 = mem_put_le32 h9 20 (of_int (num (g_timebase c)));
          h11 = mem_put_le32 h10 24 (of_int frame_count)
      in mem_put_le32 h11 28 0)"

text \<open>
  \<open>write_ivf_file_header(outfile, cfg, frame_cnt)\<close>.  The local array is not initialised
  by the source; the model starts it at zero, and \<open>fill_ivf_file_header_init\<close> below shows
  that no byte of the initial content survives.
\<close>

definition write_ivf_file_header ::
  "byte list \<Rightarrow> vpx_codec_enc_cfg_t \<Rightarrow> int \<Rightarrow> byte list" where
  "write_ivf_file_header outfile c frame_count =
     (if g_pass c \<noteq> VPX_RC_ONE_PASS \<and> g_pass c \<noteq> VPX_RC_LAST_PASS then outfile
      else fwrite (fill_ivf_file_header (replicate 32 0) c frame_count) 32 outfile)"

text \<open>
  The repository has no reader for the header.  The reader below is the specification's
  side of the round trip and follows the layout table of its section 6: magic (4 bytes at
  offset 0), version (2 at 4), header size (2 at 6), codec tag (4 at 8), width (2 at 12),
  height (2 at 14), timebase denominator or rate (4 at 16), timebase numerator or scale (4
  at 20), frame count (4 at 24), reserved (4 at 28), all little-endian.  The writer above is
  the source's.
\<close>

definition spec_get_le16 :: "byte list \<Rightarrow> nat \<Rightarrow> nat" where
  "spec_get_le16 mem off = unat (mem ! off) + 256 * unat (mem ! (off + 1))"

definition spec_get_le32 :: "byte list \<Rightarrow> nat \<Rightarrow> nat" where
  "spec_get_le32 mem off =
     unat (mem ! off) + 256 * unat (mem ! (off + 1))
       + 65536 * unat (mem ! (off + 2)) + 16777216 * unat (mem ! (off + 3))"

record spec_ivf_file_header =
  hdr_magic :: "byte list"
  hdr_version :: nat
  hdr_size :: nat
  hdr_fourcc :: nat
  hdr_width :: nat
  hdr_height :: nat
  hdr_rate :: nat
  hdr_scale :: nat
  hdr_frame_count :: nat
  hdr_reserved :: nat

definition spec_parse_ivf_file_header :: "byte list \<Rightarrow> spec_ivf_file_header option" where
  "spec_parse_ivf_file_header bs =
     (if length bs < 32 then None
      else Some \<lparr> hdr_magic = take 4 bs,
                  hdr_version = spec_get_le16 bs 4,
                  hdr_size = spec_get_le16 bs 6,
                  hdr_fourcc = spec_get_le32 bs 8,
                  hdr_width = spec_get_le16 bs 12,
                  hdr_height = spec_get_le16 bs 14,
                  hdr_rate = spec_get_le32 bs 16,
                  hdr_scale = spec_get_le32 bs 20,
                  hdr_frame_count = spec_get_le32 bs 24,
                  hdr_reserved = spec_get_le32 bs 28 \<rparr>)"

section \<open>Standard output and the ways a call can end\<close>

text \<open>
  Each \<open>printf\<close> appends its format string and arguments to the process's standard output.
  A call either returns a value, ends the process through \<open>exit\<close>, or runs into behaviour
  the C language leaves undefined.
\<close>

datatype printf_arg = Arg_s string | Arg_d int

type_synonym printf_call = "string \<times> printf_arg list"

definition printf :: "string \<Rightarrow> printf_arg list \<Rightarrow> printf_call list \<Rightarrow> printf_call list" where
  "printf fmt args out = out @ [(fmt, args)]"

datatype undefined_behaviour =
  Null_dereference | Division_by_zero | Index_out_of_bounds | Signed_overflow | Buffer_overrun

datatype 'r outcome = Returned 'r | Exited int | Undefined undefined_behaviour

text \<open>The platform's data model, which fixes the width of \<open>long\<close>.\<close>

datatype data_model = ILP32 | LP64

definition LONG_MAX :: "data_model \<Rightarrow> int" where
  "LONG_MAX dm = (case dm of ILP32 \<Rightarrow> 2 ^ 31 - 1 | LP64 \<Rightarrow> 2 ^ 63 - 1)"

definition EXIT_SUCCESS :: int where
  "EXIT_SUCCESS = 0"

definition EXIT_FAILURE :: int where
  "EXIT_FAILURE = 1"

section \<open>The encoder library as a parameter\<close>

datatype vpx_img_fmt_t = VPX_IMG_FMT_NONE | VPX_IMG_FMT_YV12 | VPX_IMG_FMT_I420

text \<open>
  \<open>vpx_image_t\<close>: the fields \<open>fmt\<close>, \<open>w\<close>, \<open>h\<close> and \<open>planes[0]\<close> (prefixed here, since
  \<open>w\<close> and \<open>h\<close> are needed as variables).
\<close>

record vpx_image_t =
  img_fmt :: vpx_img_fmt_t
  img_w :: nat
  img_h :: nat
  img_planes0 :: "byte list"

datatype vpx_codec_cx_pkt_kind =
  VPX_CODEC_CX_FRAME_PKT | VPX_CODEC_STATS_PKT | VPX_CODEC_PSNR_PKT | VPX_CODEC_CUSTOM_PKT

text \<open>\<open>vpx_codec_cx_pkt_t\<close>: \<open>kind\<close> and the members of \<open>data.frame\<close>.\<close>

record vpx_codec_cx_pkt_t =
  pkt_kind :: vpx_codec_cx_pkt_kind
  pkt_frame_buf :: "byte list"
  pkt_frame_sz :: nat
  pkt_frame_pts :: int
  pkt_frame_flags :: uint

definition VPX_FRAME_IS_KEY :: uint where
  "VPX_FRAME_IS_KEY = 1"

definition VPX_DL_REALTIME :: nat where
  "VPX_DL_REALTIME = 1"

text \<open>
  The library calls made by the file, over an opaque codec context \<open>'c\<close>.  An error code is
  an integer, zero for success.  A call that takes a pointer to a context or a configuration
  returns the new content next to its result.  \<open>vpx_codec_cx_data\<close> is the queue of packets
  the last \<open>vpx_codec_encode\<close> left in the context, which the library hands out one at a time
  through \<open>vpx_codec_get_cx_data\<close>.
\<close>

record 'c vpx_codec_iface_t =
  vpx_codec_iface_name :: string
  vpx_codec_err_to_string :: "int \<Rightarrow> string"
  vpx_codec_error :: "'c \<Rightarrow> string"
  vpx_codec_error_detail :: "'c \<Rightarrow> string option"
  vpx_codec_enc_config_default :: "vpx_codec_enc_cfg_t \<Rightarrow> nat \<Rightarrow> int \<times> vpx_codec_enc_cfg_t"
  vpx_codec_enc_init :: "'c \<Rightarrow> vpx_codec_enc_cfg_t \<Rightarrow> int \<Rightarrow> int \<times> 'c"
  vpx_codec_encode :: "'c \<Rightarrow> vpx_image_t option \<Rightarrow> int \<Rightarrow> nat \<Rightarrow> int \<Rightarrow> nat \<Rightarrow> int \<times> 'c"
  vpx_codec_cx_data :: "'c \<Rightarrow> vpx_codec_cx_pkt_t list"
  vpx_codec_destroy :: "'c \<Rightarrow> int \<times> 'c"

text \<open>
  \<open>vpx_codec_get_cx_data(ctx, &iter)\<close>: the packet at the iterator's position, or \<open>NULL\<close>
  (\<open>None\<close>) past the end of the queue, and the advanced iterator.  The \<open>NULL\<close> iterator a
  caller starts with is position 0.
\<close>

definition vpx_codec_get_cx_data ::
  "'c vpx_codec_iface_t \<Rightarrow> 'c \<Rightarrow> nat \<Rightarrow> vpx_codec_cx_pkt_t option \<times> nat" where
  "vpx_codec_get_cx_data iface ctx iter =
     (if iter < length (vpx_codec_cx_data iface ctx)
      then (Some (vpx_codec_cx_data iface ctx ! iter), Suc iter)
      else (None, iter))"

section \<open>The file-scope variables\<close>

record 'c globals =
  codec :: 'c
  cfg :: vpx_codec_enc_cfg_t
  frame_cnt :: int
  res :: int
  frame_avail :: int
  got_data :: int
  flags :: int
  stdout :: "printf_call list"

section \<open>die and die\_codec\<close>

text \<open>
  \<open>die(fmt, ...)\<close> prints, adds a newline when the format does not end in one, and exits.
  On an empty format the test reads \<open>fmt[strlen(fmt) - 1]\<close> outside the string.
\<close>

definition die :: "string \<Rightarrow> printf_arg list \<Rightarrow> 'c globals \<Rightarrow> 'r outcome \<times> 'c globals" where
  "die fmt args s =
     (let s1 = s\<lparr>stdout := printf fmt args (stdout s)\<rparr>
      in if fmt = [] then (Undefined Index_out_of_bounds, s1)
         else if last fmt \<noteq> CHR ''\<newline>''
         then (Exited EXIT_FAILURE, s1\<lparr>stdout := printf ''\<newline>'' [] (stdout s1)\<rparr>)
         else (Exited EXIT_FAILURE, s1))"

definition die_codec ::
  "'c vpx_codec_iface_t \<Rightarrow> 'c \<Rightarrow> string \<Rightarrow> 'c globals \<Rightarrow> 'r outcome \<times> 'c globals" where
  "die_codec iface ctx msg s =
     (let detail = vpx_codec_error_detail iface ctx;
          s1 = s\<lparr>stdout := printf ''%s: %s\<newline>'' [Arg_s msg, Arg_s (vpx_codec_error iface ctx)]
                              (stdout s)\<rparr>;
          s2 = (case detail of
                  Some d \<Rightarrow> s1\<lparr>stdout := printf ''    %s\<newline>'' [Arg_s d] (stdout s1)\<rparr>
                | None \<Rightarrow> s1)
      in (Exited EXIT_FAILURE, s2))"

section \<open>read\_frame\<close>

text \<open>
  A \<open>FILE *\<close> opened for reading is the list of bytes not yet consumed.
  \<open>fread(buf, 1, n, f)\<close> delivers the next \<open>n\<close> bytes, or all that are left when fewer
  remain; its result is the number of bytes delivered.
\<close>

definition fread :: "nat \<Rightarrow> byte list \<Rightarrow> byte list \<times> byte list" where
  "fread n f = (take n f, drop n f)"

text \<open>
  \<open>read_frame(f, img)\<close>: the result \<open>res\<close>, the stream, the image and standard output
  after the call.  The number of bytes asked for is computed from the \<open>unsigned int\<close> fields
  \<open>w\<close> and \<open>h\<close> in \<open>unsigned int\<close> arithmetic, so the product wraps modulo 2^32 before
  it is halved.  The bytes delivered overwrite the start of the image's buffer; delivering
  more bytes than the buffer holds writes past its end.
\<close>

definition read_frame ::
  "byte list \<Rightarrow> vpx_image_t \<Rightarrow> printf_call list
     \<Rightarrow> int outcome \<times> byte list \<times> vpx_image_t \<times> printf_call list" where
  "read_frame f img out =
     (let to_read = ((img_w img * img_h img * 3) mod 2 ^ 32) div 2;
          (bytes, f') = fread to_read f;
          nbytes = length bytes
      in if length (img_planes0 img) < nbytes then (Undefined Buffer_overrun, f', img, out)
         else
           let img1 = img\<lparr>img_planes0 := bytes @ drop nbytes (img_planes0 img)\<rparr>;
               img2 = img1\<lparr>img_fmt := VPX_IMG_FMT_YV12\<rparr>
           in if nbytes \<noteq> to_read
              then (Returned 0, f', img2,
                    if nbytes > 0
                    then printf ''Warning: Read partial frame. Check your width & height!\<newline>''
                           [] out
                    else out)
              else (Returned 1, f', img2, out))"

section \<open>setup\_encoder, encode\_frame, finalise\_encoder\<close>

text \<open>
  \<open>setup_encoder(width, height)\<close>.  The remainder \<open>width % 2\<close> is only evaluated when
  \<open>width\<close> is at least 16, where C's remainder and \<open>mod\<close> agree; likewise for the height.

  The bitrate expression is \<open>width * height * cfg.rc_target_bitrate / cfg.g_w / cfg.g_h\<close>,
  evaluated left to right, with \<open>width\<close> and \<open>height\<close> of type \<open>long\<close> and the three
  fields of type \<open>unsigned int\<close>.  The first product is a \<open>long\<close>; leaving the range of
  \<open>long\<close> is undefined behaviour.  Under LP64 the bitrate is converted to \<open>long\<close>, and the
  second product and the two divisions are again in \<open>long\<close>.  Under ILP32 a \<open>long\<close> cannot
  hold every \<open>unsigned int\<close>, so both operands are converted to \<open>unsigned long\<close>, and the
  second product wraps modulo 2^32.  A zero divisor is undefined behaviour.  All operands are
  non-negative, so C's truncating division is \<open>div\<close>.  The stores into the
  \<open>unsigned int\<close> fields \<open>rc_target_bitrate\<close>, \<open>g_w\<close> and \<open>g_h\<close> reduce modulo 2^32.
\<close>

definition scaled_bitrate ::
  "data_model \<Rightarrow> int \<Rightarrow> int \<Rightarrow> nat \<Rightarrow> nat \<Rightarrow> nat \<Rightarrow> undefined_behaviour + int" where
  "scaled_bitrate dm width height bitrate dw dh =
     (if width * height > LONG_MAX dm then Inl Signed_overflow
      else
        case (case dm of
                LP64 \<Rightarrow> if width * height * int bitrate > LONG_MAX dm then Inl Signed_overflow
                        else Inr (width * height * int bitrate)
              | ILP32 \<Rightarrow> Inr ((width * height * int bitrate) mod 2 ^ 32)) of
          Inl u \<Rightarrow> Inl u
        | Inr product \<Rightarrow>
            if dw = 0 then Inl Division_by_zero
            else if dh = 0 then Inl Division_by_zero
            else Inr (product div int dw div int dh))"

definition setup_encoder ::
  "data_model \<Rightarrow> 'c vpx_codec_iface_t \<Rightarrow> int \<Rightarrow> int \<Rightarrow> 'c globals
     \<Rightarrow> int outcome \<times> 'c globals" where
  "setup_encoder dm iface width height s =
     (if width < 16 \<or> width mod 2 \<noteq> 0 \<or> height < 16 \<or> height mod 2 \<noteq> 0
      then die ''Invalid resolution: %ldx%ld'' [Arg_d width, Arg_d height] s
      else
        let s1 = s\<lparr>stdout := printf ''Using %s\<newline>'' [Arg_s (vpx_codec_iface_name iface)]
                                (stdout s)\<rparr>;
            (r, c) = vpx_codec_enc_config_default iface (cfg s1) 0;
            s2 = s1\<lparr>cfg := c, res := r\<rparr>
        in if res s2 \<noteq> 0
           then (Returned EXIT_FAILURE,
                 s2\<lparr>stdout := printf ''Failed to get config: %s\<newline>''
                                  [Arg_s (vpx_codec_err_to_string iface (res s2))] (stdout s2)\<rparr>)
           else
             case scaled_bitrate dm width height (rc_target_bitrate (cfg s2))
                    (g_w (cfg s2)) (g_h (cfg s2)) of
               Inl u \<Rightarrow> (Undefined u, s2)
             | Inr q \<Rightarrow>
                 let s3 = s2\<lparr>cfg := (cfg s2)\<lparr>rc_target_bitrate := nat (q mod 2 ^ 32)\<rparr>\<rparr>;
                     s4 = s3\<lparr>cfg := (cfg s3)\<lparr>g_w := nat (width mod 2 ^ 32)\<rparr>\<rparr>;
                     s5 = s4\<lparr>cfg := (cfg s4)\<lparr>g_h := nat (height mod 2 ^ 32)\<rparr>\<rparr>;
                     (r', ctx) = vpx_codec_enc_init iface (codec s5) (cfg s5) 0;
                     s6 = s5\<lparr>codec := ctx\<rparr>
                 in if r' \<noteq> 0
                    then die_codec iface (codec s6) ''Failed to initialize encoder'' s6
                    else (Returned EXIT_SUCCESS, s6\<lparr>frame_avail := 1, got_data := 0\<rparr>))"

text \<open>
  \<open>encode_frame(raw)\<close>.  The function asks the library for one packet, with a fresh
  iterator, and reads \<open>pkt->kind\<close> without testing the pointer.
\<close>

definition encode_frame ::
  "'c vpx_codec_iface_t \<Rightarrow> vpx_image_t \<Rightarrow> 'c globals
     \<Rightarrow> vpx_codec_cx_pkt_t outcome \<times> 'c globals" where
  "encode_frame iface raw s =
     (let iter = 0;
          s1 = s\<lparr>frame_avail := 1\<rparr>;
          (r, ctx) = vpx_codec_encode iface (codec s1)
                       (if frame_avail s1 \<noteq> 0 then Some raw else None)
                       (frame_cnt s1) 1 (flags s1) VPX_DL_REALTIME;
          s2 = s1\<lparr>codec := ctx\<rparr>
      in if r \<noteq> 0 then die_codec iface (codec s2) ''Failed to encode frame'' s2
         else
           let s3 = s2\<lparr>got_data := 0\<rparr>;
               (pkt, iter') = vpx_codec_get_cx_data iface (codec s3) iter;
               s4 = s3\<lparr>got_data := 1\<rparr>
           in case pkt of
                None \<Rightarrow> (Undefined Null_dereference, s4)
              | Some p \<Rightarrow>
                  let s5 = (if pkt_kind p = VPX_CODEC_CX_FRAME_PKT then s4
                            else s4\<lparr>stdout := printf
                              ''WARNING - Got a different kind of packet, don't know how to handle''
                              [] (stdout s4)\<rparr>);
                      s6 = s5\<lparr>stdout := printf
                              (if pkt_kind p = VPX_CODEC_CX_FRAME_PKT
                                  \<and> pkt_frame_flags p AND VPX_FRAME_IS_KEY \<noteq> 0
                               then ''K'' else ''.'') [] (stdout s5)\<rparr>;
                      s7 = s6\<lparr>frame_cnt := frame_cnt s6 + 1\<rparr>
                  in (Returned p, s7))"

text \<open>\<open>finalise_encoder()\<close>.\<close>

definition finalise_encoder :: "'c vpx_codec_iface_t \<Rightarrow> 'c globals \<Rightarrow> int outcome \<times> 'c globals" where
  "finalise_encoder iface s =
     (let s1 = s\<lparr>stdout := printf ''Processed %d frames.\<newline>'' [Arg_d (frame_cnt s - 1)]
                              (stdout s)\<rparr>;
          (r, ctx) = vpx_codec_destroy iface (codec s1);
          s2 = s1\<lparr>codec := ctx\<rparr>
      in if r \<noteq> 0 then die_codec iface (codec s2) ''Failed to destroy codec'' s2
         else (Returned EXIT_SUCCESS, s2))"

text \<open>
  A caller's sequence of \<open>encode_frame\<close> calls, one per raw frame, which stops at the first
  call that does not return.  It yields the packets returned, in order.
\<close>

fun encode_frame_calls ::
  "'c vpx_codec_iface_t \<Rightarrow> vpx_image_t list \<Rightarrow> 'c globals
     \<Rightarrow> vpx_codec_cx_pkt_t list outcome \<times> 'c globals" where
  "encode_frame_calls iface [] s = (Returned [], s)"
| "encode_frame_calls iface (raw # raws) s =
     (case encode_frame iface raw s of
        (Returned p, s') \<Rightarrow>
          (case encode_frame_calls iface raws s' of
             (Returned ps, s'') \<Rightarrow> (Returned (p # ps), s'')
           | (Exited n, s'') \<Rightarrow> (Exited n, s'')
           | (Undefined u, s'') \<Rightarrow> (Undefined u, s''))
      | (Exited n, s') \<Rightarrow> (Exited n, s')
      | (Undefined u, s') \<Rightarrow> (Undefined u, s'))"

section \<open>A library instance and sample data\<close>

text \<open>
  A small instance of the library interface, on which the theorems below are exercised.  Its
  context records whether the handle is live, the packets of the last encode call and, as a
  script, the packets of the calls to come.  Like the real library it refuses to encode with,
  or to destroy, a handle that is not live.  The default configuration is 320 by 240 at a
  bitrate of 256.
\<close>

record test_ctx =
  alive :: bool
  pending :: "vpx_codec_cx_pkt_t list"
  script :: "vpx_codec_cx_pkt_t list list"

definition test_default_cfg :: vpx_codec_enc_cfg_t where
  "test_default_cfg =
     \<lparr> g_w = 320, g_h = 240, g_timebase = \<lparr> num = 1, den = 30 \<rparr>,
       g_pass = VPX_RC_ONE_PASS, rc_target_bitrate = 256 \<rparr>"

definition test_encode :: "test_ctx \<Rightarrow> int \<times> test_ctx" where
  "test_encode c =
     (if \<not> alive c then (1, c)
      else (0, c\<lparr>pending := (case script c of [] \<Rightarrow> [] | ps # _ \<Rightarrow> ps),
                  script := tl (script c)\<rparr>))"

definition test_destroy :: "test_ctx \<Rightarrow> int \<times> test_ctx" where
  "test_destroy c = (if alive c then (0, c\<lparr>alive := False, pending := []\<rparr>) else (1, c))"

definition test_iface :: "test_ctx vpx_codec_iface_t" where
  "test_iface =
     \<lparr> vpx_codec_iface_name = ''test encoder'',
       vpx_codec_err_to_string = (\<lambda>e. if e = 0 then ''Success'' else ''Unspecified internal error''),
       vpx_codec_error = (\<lambda>c. ''Unspecified internal error''),
       vpx_codec_error_detail = (\<lambda>c. None),
       vpx_codec_enc_config_default = (\<lambda>c usage. (0, test_default_cfg)),
       vpx_codec_enc_init = (\<lambda>c conf fl. (0, c\<lparr>alive := True, pending := []\<rparr>)),
       vpx_codec_encode = (\<lambda>c img pts duration fl deadline. test_encode c),
       vpx_codec_cx_data = pending,
       vpx_codec_destroy = test_destroy \<rparr>"

definition key_pkt :: vpx_codec_cx_pkt_t where
  "key_pkt = \<lparr> pkt_kind = VPX_CODEC_CX_FRAME_PKT, pkt_frame_buf = [1, 2, 3], pkt_frame_sz = 3,
               pkt_frame_pts = 0, pkt_frame_flags = 1 \<rparr>"

definition delta_pkt :: vpx_codec_cx_pkt_t where
  "delta_pkt = \<lparr> pkt_kind = VPX_CODEC_CX_FRAME_PKT, pkt_frame_buf = [4, 5], pkt_frame_sz = 2,
                 pkt_frame_pts = 0, pkt_frame_flags = 0 \<rparr>"

text \<open>The file-scope variables at program start, with a script for the library instance.\<close>

definition test_globals :: "vpx_codec_cx_pkt_t list list \<Rightarrow> test_ctx globals" where
  "test_globals sc =
     \<lparr> codec = \<lparr> alive = False, pending = [], script = sc \<rparr>,
       cfg = \<lparr> g_w = 0, g_h = 0, g_timebase = \<lparr> num = 0, den = 0 \<rparr>,
               g_pass = VPX_RC_ONE_PASS, rc_target_bitrate = 0 \<rparr>,
       frame_cnt = 0, res = 0, frame_avail = 0, got_data = 0, flags = 0, stdout = [] \<rparr>"

text \<open>The variables after \<open>setup_encoder(64, 64)\<close> has returned.\<close>

definition test_ready :: "vpx_codec_cx_pkt_t list list \<Rightarrow> test_ctx globals" where
  "test_ready sc = snd (setup_encoder LP64 test_iface 64 64 (test_globals sc))"

text \<open>The variables after \<open>setup_encoder(64, 64)\<close> and \<open>finalise_encoder()\<close>.\<close>

definition test_finalised :: "test_ctx globals" where
  "test_finalised = snd (finalise_encoder test_iface (test_ready []))"

text \<open>A 64 by 64 image as allocated for the session: a buffer of 6144 bytes.\<close>

definition raw_64x64 :: vpx_image_t where
  "raw_64x64 =
     \<lparr> img_fmt = VPX_IMG_FMT_NONE, img_w = 64, img_h = 64, img_planes0 = replicate 6144 0 \<rparr>"

text \<open>
  A 65536 by 21846 image with a buffer of 65536 * 21846 * 3 / 2 = 2147549184 bytes.
\<close>

definition raw_65536x21846 :: vpx_image_t where
  "raw_65536x21846 =
     \<lparr> img_fmt = VPX_IMG_FMT_NONE, img_w = 65536, img_h = 21846,
       img_planes0 = replicate 2147549184 0 \<rparr>"

definition cfg_64x64 :: "vpx_enc_pass \<Rightarrow> nat \<Rightarrow> vpx_codec_enc_cfg_t" where
  "cfg_64x64 pass bitrate =
     \<lparr> g_w = 64, g_h = 64, g_timebase = \<lparr> num = 1, den = 30 \<rparr>,
       g_pass = pass, rc_target_bitrate = bitrate \<rparr>"

section \<open>Properties of the header writer\<close>

lemma length_mem_put_le16 [simp]: "length (mem_put_le16 mem off val) = length mem"
  by (simp add: mem_put_le16_def)

lemma length_mem_put_le32 [simp]: "length (mem_put_le32 mem off val) = length mem"
  by (simp add: mem_put_le32_def)

lemma length_fill_ivf_file_header [simp]:
  "length (fill_ivf_file_header header c n) = length header"
  by (simp add: fill_ivf_file_header_def Let_def)


lemma list_update_Cons_numeral: "(x # xs)[numeral k := y] = x # xs[pred_numeral k := y]"
  by (simp add: numeral_eq_Suc)

lemma length_numeral_conv:
  "length xs = numeral k \<longleftrightarrow> (\<exists>y ys. xs = y # ys \<and> length ys = pred_numeral k)"
  by (simp add: numeral_eq_Suc length_Suc_conv)

text \<open>
  Every one of the 32 bytes of the local array is assigned: whatever the array held, the
  header is the following list.
\<close>

lemma fill_ivf_file_header_init:
  assumes "length header = 32"
  shows "fill_ivf_file_header header c n =
     [0x44, 0x4B, 0x49, 0x46, 0, 0, 32, 0, 0x56, 0x50, 0x38, 0x30,
      ucast (of_nat (g_w c) :: uint), ucast (drop_bit 8 (of_nat (g_w c) :: uint)),
      ucast (of_nat (g_h c) :: uint), ucast (drop_bit 8 (of_nat (g_h c) :: uint)),
      ucast (of_int (den (g_timebase c)) :: uint),
      ucast (drop_bit 8 (of_int (den (g_timebase c)) :: uint)),
      ucast (drop_bit 16 (of_int (den (g_timebase c)) :: uint)),
      ucast (drop_bit 24 (of_int (den (g_timebase c)) :: uint)),
      ucast (of_int (num (g_timebase c)) :: uint),
      ucast (drop_bit 8 (of_int (num (g_timebase c)) :: uint)),
      ucast (drop_bit 16 (of_int (num (g_timebase c)) :: uint)),
      ucast (drop_bit 24 (of_int (num (g_timebase c)) :: uint)),
      ucast (of_int n :: uint), ucast (drop_bit 8 (of_int n :: uint)),
      ucast (drop_bit 16 (of_int n :: uint)), ucast (drop_bit 24 (of_int n :: uint)),
      0, 0, 0, 0]"
  using assms
  by (clarsimp simp: length_numeral_conv length_Suc_conv fill_ivf_file_header_def
        mem_put_le16_def mem_put_le32_def fourcc_def list_update_Cons_numeral)

lemma write_ivf_file_header_64x64:
  "p = VPX_RC_ONE_PASS \<or> p = VPX_RC_LAST_PASS \<Longrightarrow>
   write_ivf_file_header [] (cfg_64x64 p b) 10 =
     [0x44, 0x4B, 0x49, 0x46, 0, 0, 32, 0, 0x56, 0x50, 0x38, 0x30, 64, 0, 64, 0,
      30, 0, 0, 0, 1, 0, 0, 0, 10, 0, 0, 0, 0, 0, 0, 0]"
  by (auto simp: write_ivf_file_header_def fwrite_def fill_ivf_file_header_init cfg_64x64_def)

text \<open>
  What the writers store is read back: the bytes of a 32-bit value, least significant
  first, are its base-256 digits.
\<close>

lemma le16_digits:
  fixes n :: nat
  assumes "n < 65536"
  shows "n mod 256 + 256 * (n div 256 mod 256) = n"
proof -
  have "n div 256 < 256" using assms by simp
  then have "n div 256 mod 256 = n div 256" by simp
  then show ?thesis by simp
qed

lemma le32_digits:
  fixes n :: nat
  assumes "n < 4294967296"
  shows "n mod 256 + 256 * (n div 256 mod 256) + 65536 * (n div 65536 mod 256)
           + 16777216 * (n div 16777216 mod 256) = n"
proof -
  define a where "a = n div 256"
  define b where "b = a div 256"
  define c where "c = b div 256"
  have b: "n div 65536 = b"
    unfolding b_def a_def by (simp add: div_mult2_eq [symmetric])
  have c: "n div 16777216 = c"
    unfolding c_def b_def a_def by (simp add: div_mult2_eq [symmetric])
  have "c < 256" using assms unfolding c [symmetric] by simp
  then have c': "c mod 256 = c" by simp
  have n: "n = 256 * a + n mod 256" unfolding a_def by simp
  have a: "a = 256 * b + a mod 256" unfolding b_def by simp
  have b': "b = 256 * c + b mod 256" unfolding c_def by simp
  have "n mod 256 + 256 * (a mod 256) + 65536 * (b mod 256) + 16777216 * c = n"
    using n a b' by linarith
  then show ?thesis
    by (simp add: b c c' a_def [symmetric])
qed

lemma unat_byte_of_uint:
  "unat (ucast (drop_bit k w) :: 8 word) = unat w div 2 ^ k mod 256" for w :: "32 word"
  by (simp only: unsigned_ucast_eq unat_drop_bit_eq) (simp add: take_bit_eq_mod drop_bit_eq_div)

lemma unat_le32_bytes:
  fixes w :: "32 word"
  shows "unat (ucast w :: 8 word) + 256 * unat (ucast (drop_bit 8 w) :: 8 word)
           + 65536 * unat (ucast (drop_bit 16 w) :: 8 word)
           + 16777216 * unat (ucast (drop_bit 24 w) :: 8 word) = unat w"
proof -
  have "unat w < 4294967296" using unsigned_less [of w] by simp
  from le32_digits [OF this] unat_byte_of_uint [of 0 w] unat_byte_of_uint [of 8 w] 
     unat_byte_of_uint [of 16 w] unat_byte_of_uint [of 24 w]
  show ?thesis by simp
qed

lemma unat_le16_bytes:
  fixes w :: "32 word"
  assumes "unat w < 65536"
  shows "unat (ucast w :: 8 word) + 256 * unat (ucast (drop_bit 8 w) :: 8 word) = unat w"
  using le16_digits [OF assms] unat_byte_of_uint [of 0 w] unat_byte_of_uint [of 8 w]
  by simp


lemma unat_uint_of_nat: "n < 4294967296 \<Longrightarrow> unat (of_nat n :: uint) = n"
  by (simp add: unat_of_nat)

lemma unat_uint_of_int: "0 \<le> i \<Longrightarrow> i < 4294967296 \<Longrightarrow> unat (of_int i :: uint) = nat i"
  by (simp add: unsigned_of_int take_bit_int_eq_self)

text \<open>
  The header written for any configuration whose fields fit the widths of the layout parses
  back to these fields.
\<close>

lemma ivf_file_header_round_trip:
  assumes pass: "g_pass c = VPX_RC_ONE_PASS \<or> g_pass c = VPX_RC_LAST_PASS"
    and w: "g_w c < 65536" and h: "g_h c < 65536"
    and d: "0 \<le> den (g_timebase c)" "den (g_timebase c) < 4294967296"
    and n: "0 \<le> num (g_timebase c)" "num (g_timebase c) < 4294967296"
    and k: "0 \<le> frame_count" "frame_count < 4294967296"
  shows "spec_parse_ivf_file_header (write_ivf_file_header [] c frame_count) =
     Some \<lparr> hdr_magic = [0x44, 0x4B, 0x49, 0x46], hdr_version = 0, hdr_size = 32,
            hdr_fourcc = 0x30385056, hdr_width = g_w c, hdr_height = g_h c,
            hdr_rate = nat (den (g_timebase c)), hdr_scale = nat (num (g_timebase c)),
            hdr_frame_count = nat frame_count, hdr_reserved = 0 \<rparr>"
proof -
  have W: "unat (of_nat (g_w c) :: uint) = g_w c" using w by (simp add: unat_uint_of_nat)
  have H: "unat (of_nat (g_h c) :: uint) = g_h c" using h by (simp add: unat_uint_of_nat)
  note le16 = unat_le16_bytes [of "of_nat (g_w c)"] unat_le16_bytes [of "of_nat (g_h c)"]
  note le32 = unat_le32_bytes [of "of_int (den (g_timebase c))"]
    unat_le32_bytes [of "of_int (num (g_timebase c))"] unat_le32_bytes [of "of_int frame_count"]
  from pass have "write_ivf_file_header [] c frame_count
                    = fill_ivf_file_header (replicate 32 0) c frame_count"
    by (auto simp: write_ivf_file_header_def fwrite_def)
  then show ?thesis
    using le16 le32 w h
    by (simp add: fill_ivf_file_header_init spec_parse_ivf_file_header_def spec_get_le16_def
          spec_get_le32_def W H unat_uint_of_int [OF d] unat_uint_of_int [OF n]
          unat_uint_of_int [OF k])
qed

text \<open>
  C10: \<open>write_ivf_file_header\<close> leaves the output file as it was when the pass mode is
  neither one-pass nor two-pass-last; in the one-pass and two-pass-last modes, and only
  there, it appends the 32 bytes of the header.
\<close>

theorem write_ivf_file_header_pass_mode:
  "(g_pass c \<noteq> VPX_RC_ONE_PASS \<and> g_pass c \<noteq> VPX_RC_LAST_PASS
      \<longrightarrow> write_ivf_file_header outfile c n = outfile)
   \<and> (g_pass c = VPX_RC_ONE_PASS \<or> g_pass c = VPX_RC_LAST_PASS
      \<longrightarrow> write_ivf_file_header outfile c n
            = outfile @ fill_ivf_file_header (replicate 32 0) c n
          \<and> length (write_ivf_file_header outfile c n) = length outfile + 32)"
  by (auto simp: write_ivf_file_header_def fwrite_def)

theorem write_ivf_file_header_pass_mode_witness:
  "write_ivf_file_header [7, 7] (cfg_64x64 VPX_RC_FIRST_PASS 13) 10 = [7, 7]
   \<and> length (write_ivf_file_header [7, 7] (cfg_64x64 VPX_RC_ONE_PASS 13) 10) = 34
   \<and> length (write_ivf_file_header [7, 7] (cfg_64x64 VPX_RC_LAST_PASS 13) 10) = 34"
  using write_ivf_file_header_pass_mode [of "cfg_64x64 VPX_RC_FIRST_PASS 13" "[7, 7]" 10]
    write_ivf_file_header_pass_mode [of "cfg_64x64 VPX_RC_ONE_PASS 13" "[7, 7]" 10]
    write_ivf_file_header_pass_mode [of "cfg_64x64 VPX_RC_LAST_PASS 13" "[7, 7]" 10]
  by (simp add: cfg_64x64_def)

text \<open>
  C7: the header written for width 64, height 64, timebase 1/30 (rate 30, scale 1) and
  frame count 10, in either mode that writes it, parses back under the layout of
  section 6 to exactly these values, next to the magic, version 0, header size 32, the
  codec tag and the zero reserved field.
\<close>

theorem ivf_file_header_round_trip_64x64:
  "spec_parse_ivf_file_header (write_ivf_file_header [] (cfg_64x64 VPX_RC_ONE_PASS b) 10) =
     Some \<lparr> hdr_magic = [0x44, 0x4B, 0x49, 0x46], hdr_version = 0, hdr_size = 32,
            hdr_fourcc = 0x30385056, hdr_width = 64, hdr_height = 64, hdr_rate = 30,
            hdr_scale = 1, hdr_frame_count = 10, hdr_reserved = 0 \<rparr>
   \<and> spec_parse_ivf_file_header (write_ivf_file_header [] (cfg_64x64 VPX_RC_LAST_PASS b) 10) =
     Some \<lparr> hdr_magic = [0x44, 0x4B, 0x49, 0x46], hdr_version = 0, hdr_size = 32,
            hdr_fourcc = 0x30385056, hdr_width = 64, hdr_height = 64, hdr_rate = 30,
            hdr_scale = 1, hdr_frame_count = 10, hdr_reserved = 0 \<rparr>"
  by (simp add: write_ivf_file_header_64x64 spec_parse_ivf_file_header_def
        spec_get_le16_def spec_get_le32_def)

section \<open>Properties of die\_codec\<close>

lemma fst_die_codec [simp]: "fst (die_codec iface ctx msg s) = Exited EXIT_FAILURE"
  by (simp add: die_codec_def Let_def)

lemma frame_cnt_die_codec [simp]: "frame_cnt (snd (die_codec iface ctx msg s)) = frame_cnt s"
  by (simp add: die_codec_def Let_def split: option.split)

lemma codec_die_codec [simp]: "codec (snd (die_codec iface ctx msg s)) = codec s"
  by (simp add: die_codec_def Let_def split: option.split)

lemma cfg_die_codec [simp]: "cfg (snd (die_codec iface ctx msg s)) = cfg s"
  by (simp add: die_codec_def Let_def split: option.split)

lemma frame_avail_die_codec [simp]:
  "frame_avail (snd (die_codec iface ctx msg s)) = frame_avail s"
  by (simp add: die_codec_def Let_def split: option.split)

lemma stdout_die_codec:
  "\<exists>rest. stdout (snd (die_codec iface ctx msg s)) =
      stdout s @ (''%s: %s\<newline>'', [Arg_s msg, Arg_s (vpx_codec_error iface ctx)]) # rest"
  by (simp add: die_codec_def Let_def printf_def split: option.split)

lemma die_invalid_resolution:
  "die ''Invalid resolution: %ldx%ld'' args s =
     (Exited EXIT_FAILURE,
      s\<lparr>stdout := stdout s @ [(''Invalid resolution: %ldx%ld'', args), (''\<newline>'', [])]\<rparr>)"
  by (simp add: die_def Let_def printf_def)

section \<open>Properties of setup\_encoder\<close>

text \<open>
  Within the range of \<open>long\<close> the bitrate expression is the quotient by the default pixel
  count: the two successive divisions amount to one.
\<close>

lemma scaled_bitrate_in_range:
  assumes "0 \<le> width * height"
    and "width * height \<le> LONG_MAX dm"
    and "width * height * int bitrate \<le> LONG_MAX dm"
    and "0 < dw" and "0 < dh"
  shows "scaled_bitrate dm width height bitrate dw dh =
           Inr (width * height * int bitrate div (int dw * int dh))"
proof -
  have nonneg: "0 \<le> width * height * int bitrate"
    using assms(1) by simp
  have two: "x div int dw div int dh = x div (int dw * int dh)" for x
    by (simp add: zdiv_zmult2_eq)
  show ?thesis
  proof (cases dm)
    case ILP32
    with assms(3) have "width * height * int bitrate < 2 ^ 32"
      by (simp add: LONG_MAX_def)
    with nonneg have "(width * height * int bitrate) mod 2 ^ 32 = width * height * int bitrate"
      by simp
    with ILP32 assms(2,4,5) show ?thesis
      by (simp add: scaled_bitrate_def two)
  next
    case LP64
    with assms(2-5) show ?thesis
      by (simp add: scaled_bitrate_def two)
  qed
qed

lemma scaled_bitrate_test_64x64: "scaled_bitrate dm 64 64 256 320 240 = Inr 13"
  by (cases dm) (simp_all add: scaled_bitrate_def LONG_MAX_def)

lemma setup_encoder_test_64x64:
  "setup_encoder dm test_iface 64 64 (test_globals sc) =
     (Returned EXIT_SUCCESS,
      \<lparr> codec = \<lparr> alive = True, pending = [], script = sc \<rparr>,
        cfg = cfg_64x64 VPX_RC_ONE_PASS 13,
        frame_cnt = 0, res = 0, frame_avail = 1, got_data = 0, flags = 0,
        stdout = [(''Using %s\<newline>'', [Arg_s ''test encoder''])] \<rparr>)"
  by (simp add: setup_encoder_def test_iface_def test_globals_def test_default_cfg_def
        cfg_64x64_def printf_def Let_def scaled_bitrate_test_64x64)

text \<open>A valid resolution gets past the check: the next line of output is printed.\<close>

lemma setup_encoder_passes_validation:
  assumes "16 \<le> width" "even width" "16 \<le> height" "even height"
  shows "\<exists>rest. stdout (snd (setup_encoder dm iface width height s)) =
            stdout s @ (''Using %s\<newline>'', [Arg_s (vpx_codec_iface_name iface)]) # rest"
proof -
  have valid: "\<not> (width < 16 \<or> width mod 2 \<noteq> 0 \<or> height < 16 \<or> height mod 2 \<noteq> 0)"
    using assms by presburger
  obtain r c where d: "vpx_codec_enc_config_default iface (cfg s) 0 = (r, c)"
    by (cases "vpx_codec_enc_config_default iface (cfg s) 0")
  show ?thesis
    using valid d
    apply (simp add: setup_encoder_def Let_def printf_def split: prod.split sum.split)
    apply (auto simp: die_codec_def Let_def printf_def split: option.split)
    done
qed

text \<open>
  C1: \<open>setup_encoder\<close> returns success only for a width and a height that are both even
  and at least 16.  For every other resolution it ends in \<open>die\<close> with the message
  "Invalid resolution" and the failure exit status; the library is not consulted, and the
  file-scope variables, the codec context among them, are as before the call: only the
  message has been added to standard output.  This holds under either data model.
\<close>

theorem setup_encoder_validates_resolution:
  "(fst (setup_encoder dm iface width height s) = Returned EXIT_SUCCESS
      \<longrightarrow> 16 \<le> width \<and> even width \<and> 16 \<le> height \<and> even height)
   \<and> (\<not> (16 \<le> width \<and> even width \<and> 16 \<le> height \<and> even height)
      \<longrightarrow> setup_encoder dm iface width height s =
            (Exited EXIT_FAILURE,
             s\<lparr>stdout := stdout s @
                  [(''Invalid resolution: %ldx%ld'', [Arg_d width, Arg_d height]),
                   (''\<newline>'', [])]\<rparr>))"
proof -
  have bad: "setup_encoder dm iface width height s =
            (Exited EXIT_FAILURE,
             s\<lparr>stdout := stdout s @
                  [(''Invalid resolution: %ldx%ld'', [Arg_d width, Arg_d height]),
                   (''\<newline>'', [])]\<rparr>)"
    if "\<not> (16 \<le> width \<and> even width \<and> 16 \<le> height \<and> even height)"
  proof -
    from that have "width < 16 \<or> width mod 2 \<noteq> 0 \<or> height < 16 \<or> height mod 2 \<noteq> 0"
      by presburger
    then show ?thesis
      by (simp only: setup_encoder_def if_True die_invalid_resolution)
  qed
  have "16 \<le> width \<and> even width \<and> 16 \<le> height \<and> even height"
    if ok: "fst (setup_encoder dm iface width height s) = Returned EXIT_SUCCESS"
  proof (rule ccontr)
    assume "\<not> ?thesis"
    from bad [OF this] ok show False by simp
  qed
  with bad show ?thesis by blast
qed

theorem setup_encoder_validates_resolution_witness:
  "fst (setup_encoder LP64 test_iface 64 64 (test_globals [])) = Returned EXIT_SUCCESS
   \<and> fst (setup_encoder ILP32 test_iface 64 64 (test_globals [])) = Returned EXIT_SUCCESS
   \<and> (16 :: int) \<le> 64 \<and> even (64 :: int)
   \<and> \<not> (16 \<le> (15 :: int) \<and> even (15 :: int) \<and> 16 \<le> (64 :: int) \<and> even (64 :: int))
   \<and> setup_encoder LP64 test_iface 15 64 (test_globals []) =
       (Exited EXIT_FAILURE,
        (test_globals [])\<lparr>stdout :=
           [(''Invalid resolution: %ldx%ld'', [Arg_d 15, Arg_d 64]), (''\<newline>'', [])]\<rparr>)
   \<and> codec (snd (setup_encoder LP64 test_iface 15 64 (test_globals []))) = codec (test_globals [])"
  using setup_encoder_validates_resolution [of LP64 test_iface 64 64 "test_globals []"]
    setup_encoder_validates_resolution [of ILP32 test_iface 64 64 "test_globals []"]
    setup_encoder_validates_resolution [of LP64 test_iface 15 64 "test_globals []"]
  by (simp add: setup_encoder_test_64x64) (simp add: test_globals_def)


text \<open>
  What the field holds under LP64, whenever the products fit a \<open>long\<close>: the quotient
  reduced modulo 2^32.
\<close>

lemma stored_bitrate_modulo_LP64:
  assumes "16 \<le> width" "even width" "16 \<le> height" "even height"
    and dflt: "vpx_codec_enc_config_default iface (cfg s) 0 = (0, c0)"
    and "0 < g_w c0" "0 < g_h c0"
    and "width * height \<le> LONG_MAX LP64"
    and "width * height * int (rc_target_bitrate c0) \<le> LONG_MAX LP64"
  shows "int (rc_target_bitrate (cfg (snd (setup_encoder LP64 iface width height s)))) =
           (width * height * int (rc_target_bitrate c0) div (int (g_w c0) * int (g_h c0)))
             mod 2 ^ 32"
proof -
  have valid: "\<not> (width < 16 \<or> width mod 2 \<noteq> 0 \<or> height < 16 \<or> height mod 2 \<noteq> 0)"
    using assms(1-4) by presburger
  have "0 \<le> width * height" using assms(1,3) by simp
  note sb = scaled_bitrate_in_range [OF this assms(8,9,6,7)]
  show ?thesis
    using valid dflt
    by (simp add: setup_encoder_def Let_def sb split: prod.split)
qed



section \<open>Properties of read\_frame\<close>

text \<open>
  The number of bytes \<open>read_frame\<close> asks for, and what it consumes, whatever the image.
\<close>

lemma read_frame_consumes:
  "fst (snd (read_frame f img out)) = drop ((img_w img * img_h img * 3) mod 2 ^ 32 div 2) f"
  by (simp add: read_frame_def fread_def Let_def)

text \<open>
  \<open>read_frame\<close> when the product does not wrap and the buffer holds a frame.
\<close>

lemma read_frame_in_range:
  assumes "img_w img * img_h img * 3 < 2 ^ 32"
    and "img_w img * img_h img * 3 div 2 \<le> length (img_planes0 img)"
  shows "read_frame f img out =
     (let n = img_w img * img_h img * 3 div 2;
          img' = img\<lparr>img_planes0 := take n f @ drop (min (length f) n) (img_planes0 img),
                     img_fmt := VPX_IMG_FMT_YV12\<rparr>
      in if n \<le> length f then (Returned 1, drop n f, img', out)
         else (Returned 0, drop n f, img',
               if f = [] then out
               else out @ [(''Warning: Read partial frame. Check your width & height!\<newline>'', [])]))"
proof -
  have wrap: "(img_w img * img_h img * 3) mod 2 ^ 32 = img_w img * img_h img * 3"
    using assms(1) by simp
  have fits: "\<not> length (img_planes0 img) < min (length f) (img_w img * img_h img * 3 div 2)"
    using assms(2) by simp
  show ?thesis
    unfolding read_frame_def fread_def wrap
    using fits by (simp add: Let_def printf_def min_def)
qed

text \<open>
  C2, as stated, fails: for the 65536 by 21846 image the product 65536 * 21846 * 3 wraps to
  131072, so \<open>read_frame\<close> asks for 65536 bytes, not for the 2147549184 of a frame.  On a
  stream that holds 65536 bytes it consumes them all and returns 1 without a warning,
  although fewer bytes than a frame were read.
\<close>

theorem read_frame_classifies_counterexample:
  "fst (read_frame (replicate 65536 1) raw_65536x21846 []) = Returned 1
   \<and> fst (snd (read_frame (replicate 65536 1) raw_65536x21846 [])) = []
   \<and> snd (snd (snd (read_frame (replicate 65536 1) raw_65536x21846 []))) = []
   \<and> length (replicate 65536 (1 :: byte))
        < img_w raw_65536x21846 * img_h raw_65536x21846 * 3 div 2
   \<and> img_w raw_65536x21846 * img_h raw_65536x21846 * 3 div 2
        = length (img_planes0 raw_65536x21846)"
  by (simp add: read_frame_def fread_def Let_def raw_65536x21846_def)

text \<open>
  C2, amended: for an image of non-zero width and height with width * height * 3 below
  2^32, whose buffer holds a frame, \<open>read_frame\<close> asks for width * height * 3 / 2 bytes and
  consumes as many of them as the stream still holds.  It returns 1 without printing when
  all bytes were read, returns 0 after printing the warning when between 1 and
  required - 1 bytes were read, and returns 0 without printing when no byte was read.
  These are the only results: a short read yields 0, never an error.
\<close>

theorem read_frame_classifies:
  assumes "0 < img_w img" and "0 < img_h img"
    and "img_w img * img_h img * 3 < 2 ^ 32"
    and "img_w img * img_h img * 3 div 2 \<le> length (img_planes0 img)"
  shows "case read_frame f img out of (r, f', img', out') \<Rightarrow>
     (let required = img_w img * img_h img * 3 div 2; nread = length f - length f' in
        f = take nread f @ f' \<and> nread = min required (length f)
        \<and> take nread (img_planes0 img') = take nread f
        \<and> (nread = required \<longrightarrow> r = Returned 1 \<and> out' = out)
        \<and> (1 \<le> nread \<and> nread \<le> required - 1 \<longrightarrow>
              r = Returned 0 \<and> out' = out @
                [(''Warning: Read partial frame. Check your width & height!\<newline>'', [])])
        \<and> (nread = 0 \<longrightarrow> r = Returned 0 \<and> out' = out))"
proof -
  define n where "n = img_w img * img_h img * 3 div 2"
  have "0 < img_w img * img_h img" using assms(1,2) by simp
  then have pos: "0 < n" unfolding n_def by arith
  show ?thesis
  proof (cases "n \<le> length f")
    case True
    then have "length f - (length f - n) = n" by simp
    with True pos show ?thesis
      by (auto simp: read_frame_in_range [OF assms(3,4)] n_def [symmetric] Let_def)
  next
    case False
    then have short: "length f < n" by simp
    show ?thesis
    proof (cases "f = []")
      case True
      with pos show ?thesis
        by (simp add: read_frame_in_range [OF assms(3,4)] n_def [symmetric] Let_def)
    next
      case False
      with short pos show ?thesis
        by (simp add: read_frame_in_range [OF assms(3,4)] n_def [symmetric] Let_def)
    qed
  qed
qed

theorem read_frame_classifies_witness:
  "0 < img_w raw_64x64 \<and> 0 < img_h raw_64x64
   \<and> img_w raw_64x64 * img_h raw_64x64 * 3 < 2 ^ 32
   \<and> img_w raw_64x64 * img_h raw_64x64 * 3 div 2 \<le> length (img_planes0 raw_64x64)
   \<and> read_frame (replicate 6144 1) raw_64x64 [] =
        (Returned 1, [],
         raw_64x64\<lparr>img_planes0 := replicate 6144 1, img_fmt := VPX_IMG_FMT_YV12\<rparr>, [])
   \<and> read_frame (replicate 3072 1) raw_64x64 [] =
        (Returned 0, [],
         raw_64x64\<lparr>img_planes0 := replicate 3072 1 @ replicate 3072 0,
                   img_fmt := VPX_IMG_FMT_YV12\<rparr>,
         [(''Warning: Read partial frame. Check your width & height!\<newline>'', [])])
   \<and> read_frame [] raw_64x64 [] =
        (Returned 0, [], raw_64x64\<lparr>img_fmt := VPX_IMG_FMT_YV12\<rparr>, [])"
  using read_frame_classifies [of raw_64x64 "replicate 6144 1" "[]"]
    read_frame_classifies [of raw_64x64 "replicate 3072 1" "[]"]
    read_frame_classifies [of raw_64x64 "[]" "[]"]
  by (simp add: read_frame_def fread_def Let_def printf_def raw_64x64_def)

section \<open>Properties of encode\_frame\<close>

text \<open>The three ways through \<open>encode_frame\<close>, by what the library answers.\<close>

lemma encode_frame_error:
  assumes "vpx_codec_encode iface (codec s) (Some raw) (frame_cnt s) 1 (flags s) VPX_DL_REALTIME = (r, ctx)"
    and "r \<noteq> 0"
  shows "encode_frame iface raw s =
           die_codec iface ctx ''Failed to encode frame'' (s\<lparr>frame_avail := 1, codec := ctx\<rparr>)"
  using assms by (simp add: encode_frame_def Let_def)

lemma encode_frame_no_packet:
  assumes "vpx_codec_encode iface (codec s) (Some raw) (frame_cnt s) 1 (flags s) VPX_DL_REALTIME = (0, ctx)"
    and "vpx_codec_cx_data iface ctx = []"
  shows "encode_frame iface raw s =
           (Undefined Null_dereference, s\<lparr>frame_avail := 1, codec := ctx, got_data := 1\<rparr>)"
  using assms by (simp add: encode_frame_def Let_def vpx_codec_get_cx_data_def)

lemma encode_frame_packet:
  assumes "vpx_codec_encode iface (codec s) (Some raw) (frame_cnt s) 1 (flags s) VPX_DL_REALTIME = (0, ctx)"
    and "vpx_codec_cx_data iface ctx = p # ps"
  shows "encode_frame iface raw s =
           (Returned p,
            s\<lparr>frame_avail := 1, codec := ctx, got_data := 1,
              stdout := stdout s
                @ (if pkt_kind p = VPX_CODEC_CX_FRAME_PKT then []
                   else [(''WARNING - Got a different kind of packet, don't know how to handle'', [])])
                @ [(if pkt_kind p = VPX_CODEC_CX_FRAME_PKT \<and> pkt_frame_flags p AND VPX_FRAME_IS_KEY \<noteq> 0
                    then ''K'' else ''.'', [])],
              frame_cnt := frame_cnt s + 1\<rparr>)"
  using assms by (simp add: encode_frame_def Let_def vpx_codec_get_cx_data_def printf_def)

lemma encode_frame_returned_frame_cnt:
  assumes "encode_frame iface raw s = (Returned p, s')"
  shows "frame_cnt s' = frame_cnt s + 1"
proof -
  obtain r ctx where e: "vpx_codec_encode iface (codec s) (Some raw) (frame_cnt s) 1 (flags s)
                           VPX_DL_REALTIME = (r, ctx)"
    by (cases "vpx_codec_encode iface (codec s) (Some raw) (frame_cnt s) 1 (flags s)
                 VPX_DL_REALTIME")
  show ?thesis
  proof (cases "r = 0")
    case False
    have "fst (encode_frame iface raw s) = Exited EXIT_FAILURE"
      by (simp add: encode_frame_error [OF e False])
    with assms show ?thesis by simp
  next
    case True
    show ?thesis
    proof (cases "vpx_codec_cx_data iface ctx")
      case Nil
      with encode_frame_no_packet [of iface s raw ctx] e True assms show ?thesis by simp
    next
      case (Cons q qs)
      with encode_frame_packet [of iface s raw ctx q qs] e True assms show ?thesis by auto
    qed
  qed
qed

text \<open>
  Calls that return advance the frame counter by one each: a sequence of calls that all
  return has advanced it by their number.
\<close>

lemma encode_frame_calls_frame_cnt:
  "encode_frame_calls iface raws s = (Returned ps, s') \<Longrightarrow>
     frame_cnt s' = frame_cnt s + int (length raws) \<and> length ps = length raws"
proof (induction raws arbitrary: s ps)
  case Nil
  then show ?case by simp
next
  case (Cons raw raws)
  from Cons.prems obtain p s1 where 1: "encode_frame iface raw s = (Returned p, s1)"
    by (auto split: prod.splits outcome.splits)
  with Cons.prems obtain qs
    where 2: "encode_frame_calls iface raws s1 = (Returned qs, s')" and 3: "ps = p # qs"
    by (auto split: prod.splits outcome.splits)
  from Cons.IH [OF 2] encode_frame_returned_frame_cnt [OF 1] 3 show ?case by simp
qed

text \<open>The library instance, evaluated.\<close>

lemma test_ready_eq:
  "test_ready sc =
      \<lparr> codec = \<lparr> alive = True, pending = [], script = sc \<rparr>,
        cfg = cfg_64x64 VPX_RC_ONE_PASS 13,
        frame_cnt = 0, res = 0, frame_avail = 1, got_data = 0, flags = 0,
        stdout = [(''Using %s\<newline>'', [Arg_s ''test encoder''])] \<rparr>"
  by (simp add: test_ready_def setup_encoder_test_64x64)

lemma test_encode_live:
  "alive (codec s) \<Longrightarrow>
   vpx_codec_encode test_iface (codec s) (Some raw) (frame_cnt s) 1 (flags s) VPX_DL_REALTIME =
     (0, (codec s)\<lparr>pending := (case script (codec s) of [] \<Rightarrow> [] | ps # _ \<Rightarrow> ps),
                  script := tl (script (codec s))\<rparr>)"
  by (simp add: test_iface_def test_encode_def)

lemma test_encode_released:
  "\<not> alive c \<Longrightarrow> vpx_codec_encode test_iface c img pts d fl dl = (1, c)"
  by (simp add: test_iface_def test_encode_def)

lemma test_cx_data: "vpx_codec_cx_data test_iface c = pending c"
  by (simp add: test_iface_def)

lemma test_destroy_live:
  "alive c \<Longrightarrow> vpx_codec_destroy test_iface c = (0, c\<lparr>alive := False, pending := []\<rparr>)"
  by (simp add: test_iface_def test_destroy_def)

lemma test_destroy_released:
  "\<not> alive c \<Longrightarrow> vpx_codec_destroy test_iface c = (1, c)"
  by (simp add: test_iface_def test_destroy_def)

lemma die_codec_test:
  "die_codec test_iface ctx msg s =
     (Exited EXIT_FAILURE,
      s\<lparr>stdout := stdout s @ [(''%s: %s\<newline>'', [Arg_s msg, Arg_s ''Unspecified internal error''])]\<rparr>)"
  by (simp add: die_codec_def test_iface_def printf_def)

lemma encode_frame_test:
  assumes "alive (codec s)"
  shows "encode_frame test_iface raw s =
     (case script (codec s) of
        (p # ps) # rest \<Rightarrow>
          (Returned p,
           s\<lparr>frame_avail := 1, codec := (codec s)\<lparr>pending := p # ps, script := rest\<rparr>,
             got_data := 1,
             stdout := stdout s
               @ (if pkt_kind p = VPX_CODEC_CX_FRAME_PKT then []
                  else [(''WARNING - Got a different kind of packet, don't know how to handle'', [])])
               @ [(if pkt_kind p = VPX_CODEC_CX_FRAME_PKT \<and> pkt_frame_flags p AND VPX_FRAME_IS_KEY \<noteq> 0
                   then ''K'' else ''.'', [])],
             frame_cnt := frame_cnt s + 1\<rparr>)
      | _ \<Rightarrow> (Undefined Null_dereference,
              s\<lparr>frame_avail := 1, codec := (codec s)\<lparr>pending := [], script := tl (script (codec s))\<rparr>,
                got_data := 1\<rparr>))"
proof (cases "script (codec s)")
  case Nil
  with assms show ?thesis
    by (simp add: encode_frame_no_packet [OF test_encode_live] test_cx_data)
next
  case (Cons q rest)
  show ?thesis
  proof (cases q)
    case Nil
    with Cons assms show ?thesis
      by (simp add: encode_frame_no_packet [OF test_encode_live] test_cx_data)
  next
    case (Cons p ps)
    with \<open>script (codec s) = q # rest\<close> assms show ?thesis
      by (simp add: encode_frame_packet [OF test_encode_live] test_cx_data)
  qed
qed

lemma encode_frame_test_released:
  "\<not> alive (codec s) \<Longrightarrow>
   encode_frame test_iface raw s =
     (Exited EXIT_FAILURE,
      s\<lparr>frame_avail := 1, stdout := stdout s @
          [(''%s: %s\<newline>'', [Arg_s ''Failed to encode frame'', Arg_s ''Unspecified internal error''])]\<rparr>)"
  by (simp add: encode_frame_error [OF test_encode_released] die_codec_test)

text \<open>
  C3, as stated, fails: the library instance emits two packets for the call, and
  \<open>encode_frame\<close> returns the first one only; the second stays in the library's queue.
\<close>

theorem encode_frame_drains_counterexample:
  "fst (encode_frame test_iface raw_64x64 (test_ready [[key_pkt, delta_pkt]])) = Returned key_pkt
   \<and> vpx_codec_cx_data test_iface
        (codec (snd (encode_frame test_iface raw_64x64 (test_ready [[key_pkt, delta_pkt]]))))
       = [key_pkt, delta_pkt]
   \<and> [key_pkt] \<noteq> [key_pkt, delta_pkt]"
  by (simp add: encode_frame_test test_ready_eq test_cx_data)

text \<open>
  C3, amended: when the library reports no error and emits one or more packets for the
  call, \<open>encode_frame\<close> returns the first packet emitted, and only that one: it asks for a
  single packet, and the queue is left in the context as the library filled it.
\<close>

theorem encode_frame_returns_first_packet:
  assumes "vpx_codec_encode iface (codec s) (Some raw) (frame_cnt s) 1 (flags s) VPX_DL_REALTIME = (0, ctx)"
    and "vpx_codec_cx_data iface ctx = p # ps"
  shows "fst (encode_frame iface raw s) = Returned p
       \<and> codec (snd (encode_frame iface raw s)) = ctx
       \<and> vpx_codec_cx_data iface (codec (snd (encode_frame iface raw s))) = p # ps"
  using assms by (simp add: encode_frame_packet [OF assms])

theorem encode_frame_returns_first_packet_witness:
  "vpx_codec_encode test_iface (codec (test_ready [[key_pkt, delta_pkt]])) (Some raw_64x64)
       (frame_cnt (test_ready [[key_pkt, delta_pkt]])) 1 (flags (test_ready [[key_pkt, delta_pkt]]))
       VPX_DL_REALTIME
     = (0, \<lparr> alive = True, pending = [key_pkt, delta_pkt], script = [] \<rparr>)
   \<and> vpx_codec_cx_data test_iface \<lparr> alive = True, pending = [key_pkt, delta_pkt], script = [] \<rparr>
       = key_pkt # [delta_pkt]
   \<and> fst (encode_frame test_iface raw_64x64 (test_ready [[key_pkt, delta_pkt]])) = Returned key_pkt"
proof -
  have e: "vpx_codec_encode test_iface (codec (test_ready [[key_pkt, delta_pkt]])) (Some raw_64x64)
       (frame_cnt (test_ready [[key_pkt, delta_pkt]])) 1 (flags (test_ready [[key_pkt, delta_pkt]]))
       VPX_DL_REALTIME
     = (0, \<lparr> alive = True, pending = [key_pkt, delta_pkt], script = [] \<rparr>)"
    by (simp add: test_ready_eq test_iface_def test_encode_def)
  have d: "vpx_codec_cx_data test_iface \<lparr> alive = True, pending = [key_pkt, delta_pkt], script = [] \<rparr>
       = key_pkt # [delta_pkt]"
    by (simp add: test_cx_data)
  from encode_frame_returns_first_packet [OF e d] e d show ?thesis by simp
qed

text \<open>
  C9: \<open>encode_frame\<close> reads \<open>pkt->kind\<close> without testing \<open>pkt\<close>.  When the library
  accepts the frame, the call returns a packet exactly when the library emitted at least one,
  and dereferences the null pointer exactly when it emitted none.
\<close>

theorem encode_frame_null_dereference:
  assumes "vpx_codec_encode iface (codec s) (Some raw) (frame_cnt s) 1 (flags s) VPX_DL_REALTIME = (0, ctx)"
  shows "(fst (encode_frame iface raw s) = Undefined Null_dereference)
           = (vpx_codec_cx_data iface ctx = [])
       \<and> ((\<exists>p. fst (encode_frame iface raw s) = Returned p)
           = (vpx_codec_cx_data iface ctx \<noteq> []))"
proof (cases "vpx_codec_cx_data iface ctx")
  case Nil
  then show ?thesis by (simp add: encode_frame_no_packet [OF assms])
next
  case (Cons p ps)
  then show ?thesis by (simp add: encode_frame_packet [OF assms])
qed

theorem encode_frame_null_dereference_witness:
  "vpx_codec_encode test_iface (codec (test_ready [[]])) (Some raw_64x64)
       (frame_cnt (test_ready [[]])) 1 (flags (test_ready [[]])) VPX_DL_REALTIME
     = (0, \<lparr> alive = True, pending = [], script = [] \<rparr>)
   \<and> vpx_codec_cx_data test_iface \<lparr> alive = True, pending = [], script = [] \<rparr> = []
   \<and> fst (encode_frame test_iface raw_64x64 (test_ready [[]])) = Undefined Null_dereference
   \<and> vpx_codec_encode test_iface (codec (test_ready [[key_pkt]])) (Some raw_64x64)
       (frame_cnt (test_ready [[key_pkt]])) 1 (flags (test_ready [[key_pkt]])) VPX_DL_REALTIME
     = (0, \<lparr> alive = True, pending = [key_pkt], script = [] \<rparr>)
   \<and> (\<exists>p. fst (encode_frame test_iface raw_64x64 (test_ready [[key_pkt]])) = Returned p)"
proof -
  have e0: "vpx_codec_encode test_iface (codec (test_ready [[]])) (Some raw_64x64)
       (frame_cnt (test_ready [[]])) 1 (flags (test_ready [[]])) VPX_DL_REALTIME
     = (0, \<lparr> alive = True, pending = [], script = [] \<rparr>)"
    by (simp add: test_ready_eq test_iface_def test_encode_def)
  have e1: "vpx_codec_encode test_iface (codec (test_ready [[key_pkt]])) (Some raw_64x64)
       (frame_cnt (test_ready [[key_pkt]])) 1 (flags (test_ready [[key_pkt]])) VPX_DL_REALTIME
     = (0, \<lparr> alive = True, pending = [key_pkt], script = [] \<rparr>)"
    by (simp add: test_ready_eq test_iface_def test_encode_def)
  from encode_frame_null_dereference [OF e0] encode_frame_null_dereference [OF e1] e0 e1 show ?thesis
    by (simp add: test_cx_data)
qed

text \<open>
  C4, at an input where the code departs from it: two calls after \<open>setup_encoder(64, 64)\<close>,
  the library emitting one packet for the first and none for the second.  The second call
  dereferences the null pointer before it reaches \<open>frame_cnt++\<close>; the counter, 0 after
  the setup, stands at 1.
\<close>

theorem encode_frame_calls_zero_packets:
  "frame_cnt (test_ready [[key_pkt], []]) = 0
   \<and> fst (encode_frame_calls test_iface [raw_64x64, raw_64x64] (test_ready [[key_pkt], []]))
       = Undefined Null_dereference
   \<and> frame_cnt (snd (encode_frame_calls test_iface [raw_64x64, raw_64x64]
                        (test_ready [[key_pkt], []]))) = 1"
  by (simp add: encode_frame_test test_ready_eq)

section \<open>Properties of finalise\_encoder\<close>

lemma finalise_encoder_ok:
  assumes "vpx_codec_destroy iface (codec s) = (0, ctx)"
  shows "finalise_encoder iface s =
           (Returned EXIT_SUCCESS,
            s\<lparr>stdout := stdout s @ [(''Processed %d frames.\<newline>'', [Arg_d (frame_cnt s - 1)])],
              codec := ctx\<rparr>)"
  using assms by (simp add: finalise_encoder_def Let_def printf_def)

lemma finalise_encoder_error:
  assumes "vpx_codec_destroy iface (codec s) = (r, ctx)" and "r \<noteq> 0"
  shows "finalise_encoder iface s =
           die_codec iface ctx ''Failed to destroy codec''
             (s\<lparr>stdout := stdout s @ [(''Processed %d frames.\<newline>'', [Arg_d (frame_cnt s - 1)])],
                codec := ctx\<rparr>)"
  using assms by (simp add: finalise_encoder_def Let_def printf_def)

lemma finalise_encoder_test:
  "alive (codec s) \<Longrightarrow>
   finalise_encoder test_iface s =
     (Returned EXIT_SUCCESS,
      s\<lparr>stdout := stdout s @ [(''Processed %d frames.\<newline>'', [Arg_d (frame_cnt s - 1)])],
        codec := (codec s)\<lparr>alive := False, pending := []\<rparr>\<rparr>)"
  by (simp add: finalise_encoder_ok [OF test_destroy_live])

lemma finalise_encoder_test_released:
  "\<not> alive (codec s) \<Longrightarrow>
   finalise_encoder test_iface s =
     (Exited EXIT_FAILURE,
      s\<lparr>stdout := stdout s @
          [(''Processed %d frames.\<newline>'', [Arg_d (frame_cnt s - 1)]),
           (''%s: %s\<newline>'', [Arg_s ''Failed to destroy codec'', Arg_s ''Unspecified internal error''])]\<rparr>)"
  by (simp add: finalise_encoder_error [OF test_destroy_released] die_codec_test)

lemma test_finalised_eq:
  "test_finalised =
      \<lparr> codec = \<lparr> alive = False, pending = [], script = [] \<rparr>,
        cfg = cfg_64x64 VPX_RC_ONE_PASS 13,
        frame_cnt = 0, res = 0, frame_avail = 1, got_data = 0, flags = 0,
        stdout = [(''Using %s\<newline>'', [Arg_s ''test encoder'']),
                  (''Processed %d frames.\<newline>'', [Arg_d (- 1)])] \<rparr>"
  by (simp add: test_finalised_def test_ready_eq finalise_encoder_test)

text \<open>
  On the library instance, n calls for which the script holds one key frame packet each all
  return and advance the counter by n.
\<close>

lemma encode_frame_calls_test_key:
  assumes "alive (codec s)" and "script (codec s) = replicate n [key_pkt] @ rest"
  shows "fst (encode_frame_calls test_iface (replicate n raw) s) = Returned (replicate n key_pkt)
       \<and> frame_cnt (snd (encode_frame_calls test_iface (replicate n raw) s)) = frame_cnt s + int n
       \<and> alive (codec (snd (encode_frame_calls test_iface (replicate n raw) s)))
       \<and> script (codec (snd (encode_frame_calls test_iface (replicate n raw) s))) = rest"
  using assms
proof (induction n arbitrary: s)
  case 0
  then show ?case by simp
next
  case (Suc n)
  let ?s1 = "s\<lparr>frame_avail := 1,
               codec := (codec s)\<lparr>pending := [key_pkt], script := replicate n [key_pkt] @ rest\<rparr>,
               got_data := 1,
               stdout := stdout s @ [(''K'', [])],
               frame_cnt := frame_cnt s + 1\<rparr>"
  have key: "pkt_kind key_pkt = VPX_CODEC_CX_FRAME_PKT"
    "pkt_frame_flags key_pkt AND VPX_FRAME_IS_KEY \<noteq> 0"
    by (simp_all add: key_pkt_def VPX_FRAME_IS_KEY_def)
  have step: "encode_frame test_iface raw s = (Returned key_pkt, ?s1)"
    using Suc.prems key by (simp add: encode_frame_test)
  have "alive (codec ?s1)" and "script (codec ?s1) = replicate n [key_pkt] @ rest"
    using Suc.prems by simp_all
  from Suc.IH [OF this] obtain s2
    where run: "encode_frame_calls test_iface (replicate n raw) ?s1 = (Returned (replicate n key_pkt), s2)"
      and s2: "frame_cnt s2 = frame_cnt ?s1 + int n" "alive (codec s2)" "script (codec s2) = rest"
    by (cases "encode_frame_calls test_iface (replicate n raw) ?s1") auto
  from step run s2 show ?case by simp
qed

text \<open>
  C5, at an input where the code departs from it: \<open>setup_encoder(64, 64)\<close>, ten calls of
  \<open>encode_frame\<close> that each return a packet, then \<open>finalise_encoder\<close>.  The frame
  counter is 10, \<open>finalise_encoder\<close> returns \<open>EXIT_SUCCESS\<close>, and the count it reports,
  \<open>frame_cnt - 1\<close>, is 9.
\<close>

theorem finalise_encoder_after_ten_frames:
  "fst (encode_frame_calls test_iface (replicate 10 raw_64x64) (test_ready (replicate 10 [key_pkt])))
     = Returned (replicate 10 key_pkt)
   \<and> frame_cnt (snd (encode_frame_calls test_iface (replicate 10 raw_64x64)
                        (test_ready (replicate 10 [key_pkt])))) = 10
   \<and> fst (finalise_encoder test_iface
            (snd (encode_frame_calls test_iface (replicate 10 raw_64x64)
                    (test_ready (replicate 10 [key_pkt]))))) = Returned EXIT_SUCCESS
   \<and> last (stdout (snd (finalise_encoder test_iface
            (snd (encode_frame_calls test_iface (replicate 10 raw_64x64)
                    (test_ready (replicate 10 [key_pkt]))))))) = (''Processed %d frames.\<newline>'', [Arg_d 9])"
proof -
  have "alive (codec (test_ready (replicate 10 [key_pkt])))"
    and "script (codec (test_ready (replicate 10 [key_pkt]))) = replicate 10 [key_pkt] @ []"
    and "frame_cnt (test_ready (replicate 10 [key_pkt])) = 0"
    by (simp_all add: test_ready_eq)
  with encode_frame_calls_test_key [of "test_ready (replicate 10 [key_pkt])" 10 "[]" raw_64x64]
  show ?thesis by (simp add: finalise_encoder_test)
qed

text \<open>
  C8, as stated, fails: after \<open>setup_encoder\<close> and a \<open>finalise_encoder\<close> that returned,
  a further \<open>finalise_encoder\<close> and a further \<open>encode_frame\<close> both change standard
  output.
\<close>

theorem operations_after_finalise_counterexample:
  "fst (finalise_encoder test_iface (test_ready [])) = Returned EXIT_SUCCESS
   \<and> test_finalised = snd (finalise_encoder test_iface (test_ready []))
   \<and> stdout (snd (finalise_encoder test_iface test_finalised)) \<noteq> stdout test_finalised
   \<and> stdout (snd (encode_frame test_iface raw_64x64 test_finalised)) \<noteq> stdout test_finalised"
  by (simp add: test_finalised_eq finalise_encoder_test_released encode_frame_test_released
        test_ready_eq finalise_encoder_test)

lemma encode_frame_rejected:
  assumes "vpx_codec_encode iface (codec s) (Some raw) (frame_cnt s) 1 (flags s) VPX_DL_REALTIME = (r, ctx)"
    and "r \<noteq> 0"
  shows "fst (encode_frame iface raw s) = Exited EXIT_FAILURE
        \<and> frame_cnt (snd (encode_frame iface raw s)) = frame_cnt s
        \<and> (\<exists>rest. stdout (snd (encode_frame iface raw s)) =
              stdout s @ (''%s: %s\<newline>'',
                 [Arg_s ''Failed to encode frame'', Arg_s (vpx_codec_error iface ctx)]) # rest)"
  using stdout_die_codec [of iface ctx "''Failed to encode frame''" "s\<lparr>frame_avail := 1, codec := ctx\<rparr>"]
  by (simp add: encode_frame_error [OF assms])

lemma finalise_encoder_rejected:
  assumes "vpx_codec_destroy iface (codec s) = (r, ctx)" and "r \<noteq> 0"
  shows "fst (finalise_encoder iface s) = Exited EXIT_FAILURE
        \<and> frame_cnt (snd (finalise_encoder iface s)) = frame_cnt s
        \<and> (\<exists>rest. stdout (snd (finalise_encoder iface s)) =
              stdout s @ (''Processed %d frames.\<newline>'', [Arg_d (frame_cnt s - 1)])
                # (''%s: %s\<newline>'',
                   [Arg_s ''Failed to destroy codec'', Arg_s (vpx_codec_error iface ctx)]) # rest)"
  using stdout_die_codec [of iface ctx "''Failed to destroy codec''"
        "s\<lparr>stdout := stdout s @ [(''Processed %d frames.\<newline>'', [Arg_d (frame_cnt s - 1)])], codec := ctx\<rparr>"]
  by (simp add: finalise_encoder_error [OF assms])

text \<open>
  C8, amended: the file keeps no session state and has no invalid-state error; a call after
  \<open>finalise_encoder\<close> hands the released handle to the library again.  When the library
  reports an error for it, \<open>encode_frame\<close> and \<open>finalise_encoder\<close> end the process with
  the failure status and leave the frame counter unchanged, but not without side effects:
  the library's error is printed, after the "Processed" line in the case of
  \<open>finalise_encoder\<close>.
\<close>

theorem operations_after_finalise_rejected:
  "(fst (vpx_codec_encode iface (codec s) (Some raw) (frame_cnt s) 1 (flags s) VPX_DL_REALTIME) \<noteq> 0
      \<longrightarrow> fst (encode_frame iface raw s) = Exited EXIT_FAILURE
        \<and> frame_cnt (snd (encode_frame iface raw s)) = frame_cnt s
        \<and> (\<exists>rest. stdout (snd (encode_frame iface raw s)) =
              stdout s @ (''%s: %s\<newline>'',
                 [Arg_s ''Failed to encode frame'',
                  Arg_s (vpx_codec_error iface (snd (vpx_codec_encode iface (codec s) (Some raw)
                           (frame_cnt s) 1 (flags s) VPX_DL_REALTIME)))]) # rest))
   \<and> (fst (vpx_codec_destroy iface (codec s)) \<noteq> 0
      \<longrightarrow> fst (finalise_encoder iface s) = Exited EXIT_FAILURE
        \<and> frame_cnt (snd (finalise_encoder iface s)) = frame_cnt s
        \<and> (\<exists>rest. stdout (snd (finalise_encoder iface s)) =
              stdout s @ (''Processed %d frames.\<newline>'', [Arg_d (frame_cnt s - 1)])
                # (''%s: %s\<newline>'',
                   [Arg_s ''Failed to destroy codec'',
                    Arg_s (vpx_codec_error iface (snd (vpx_codec_destroy iface (codec s))))]) # rest))"
proof (rule conjI; rule impI)
  assume "fst (vpx_codec_encode iface (codec s) (Some raw) (frame_cnt s) 1 (flags s) VPX_DL_REALTIME) \<noteq> 0"
  from encode_frame_rejected [OF prod.collapse [symmetric] this]
  show "fst (encode_frame iface raw s) = Exited EXIT_FAILURE
        \<and> frame_cnt (snd (encode_frame iface raw s)) = frame_cnt s
        \<and> (\<exists>rest. stdout (snd (encode_frame iface raw s)) =
              stdout s @ (''%s: %s\<newline>'',
                 [Arg_s ''Failed to encode frame'',
                  Arg_s (vpx_codec_error iface (snd (vpx_codec_encode iface (codec s) (Some raw)
                           (frame_cnt s) 1 (flags s) VPX_DL_REALTIME)))]) # rest)" .
next
  assume "fst (vpx_codec_destroy iface (codec s)) \<noteq> 0"
  from finalise_encoder_rejected [OF prod.collapse [symmetric] this]
  show "fst (finalise_encoder iface s) = Exited EXIT_FAILURE
        \<and> frame_cnt (snd (finalise_encoder iface s)) = frame_cnt s
        \<and> (\<exists>rest. stdout (snd (finalise_encoder iface s)) =
              stdout s @ (''Processed %d frames.\<newline>'', [Arg_d (frame_cnt s - 1)])
                # (''%s: %s\<newline>'',
                   [Arg_s ''Failed to destroy codec'',
                    Arg_s (vpx_codec_error iface (snd (vpx_codec_destroy iface (codec s))))]) # rest)" .
qed

theorem operations_after_finalise_rejected_witness:
  "fst (vpx_codec_encode test_iface (codec test_finalised) (Some raw_64x64)
          (frame_cnt test_finalised) 1 (flags test_finalised) VPX_DL_REALTIME) \<noteq> 0
   \<and> fst (encode_frame test_iface raw_64x64 test_finalised) = Exited EXIT_FAILURE
   \<and> frame_cnt (snd (encode_frame test_iface raw_64x64 test_finalised)) = frame_cnt test_finalised
   \<and> fst (vpx_codec_destroy test_iface (codec test_finalised)) \<noteq> 0
   \<and> fst (finalise_encoder test_iface test_finalised) = Exited EXIT_FAILURE
   \<and> frame_cnt (snd (finalise_encoder test_iface test_finalised)) = frame_cnt test_finalised"
  using operations_after_finalise_rejected [of test_iface test_finalised raw_64x64]
  by (simp add: test_finalised_eq test_encode_released test_destroy_released)

end
